theory Spec2Isabelle
  imports Complex_Main "HOL-Library.Word"
begin

section \<open>Python values\<close>

text \<open>
  A Python \<open>str\<close> is the list of its Unicode code points; \<open>bytes\<close> is a list of
  8-bit characters, so that \<open>b'tEXt'\<close> is the literal \<open>''tEXt''\<close>.
\<close>

type_synonym pystr = "nat list"
type_synonym bytes = "char list"

definition ascii :: "string \<Rightarrow> pystr" where
  "ascii s = map of_char s"

text \<open>
  What \<open>json.loads\<close> returns. Python floats are kept abstract (type \<open>'f\<close>): their
  arithmetic is supplied by the runtime record below. A \<open>dict\<close> is an association list
  in insertion order.
\<close>

datatype 'f json =
    JNull
  | JBool bool
  | JInt int
  | JFloat 'f
  | JStr pystr
  | JList "'f json list"
  | JObj "(pystr \<times> 'f json) list"

datatype 'f pynum = PInt int | PFloat 'f

datatype pyexc =
    TypeError | AttributeError | ValueError | UnicodeEncodeError | StructError | PngError

text \<open>
  The functions of the Python runtime and standard library that the mapper calls and that
  are not part of the repository: \<open>float(s)\<close> on a string (\<open>None\<close> is its ValueError),
  float arithmetic and comparison, \<open>str(v)\<close> on a value that is not a string,
  \<open>json.dumps(v, ensure_ascii=False, indent=2)\<close>, \<open>os.path.basename\<close> and the root part
  of \<open>os.path.splitext\<close>.
\<close>

record 'f runtime =
  float_of_str :: "pystr \<Rightarrow> 'f option"
  float_of_int :: "int \<Rightarrow> 'f"
  float_sub :: "'f \<Rightarrow> 'f \<Rightarrow> 'f"
  float_div :: "'f \<Rightarrow> 'f \<Rightarrow> 'f"
  float_lt :: "'f \<Rightarrow> 'f \<Rightarrow> bool"
  float_eq :: "'f \<Rightarrow> 'f \<Rightarrow> bool"
  str_of :: "'f json \<Rightarrow> pystr"
  json_dumps_indent :: "'f json \<Rightarrow> pystr"
  path_basename :: "pystr \<Rightarrow> pystr"
  path_splitext_root :: "pystr \<Rightarrow> pystr"

text \<open>Truth value of a JSON value (\<open>if v:\<close>, \<open>bool(v)\<close>).\<close>

fun py_truthy :: "'f runtime \<Rightarrow> 'f json \<Rightarrow> bool" where
  "py_truthy rt JNull = False"
| "py_truthy rt (JBool b) = b"
| "py_truthy rt (JInt i) = (i \<noteq> 0)"
| "py_truthy rt (JFloat x) = (\<not> float_eq rt x (float_of_int rt 0))"
| "py_truthy rt (JStr s) = (s \<noteq> [])"
| "py_truthy rt (JList l) = (l \<noteq> [])"
| "py_truthy rt (JObj kvs) = (kvs \<noteq> [])"

text \<open>\<open>str(v)\<close>: a string is returned as it is.\<close>

definition py_str :: "'f runtime \<Rightarrow> 'f json \<Rightarrow> pystr" where
  "py_str rt v = (case v of JStr s \<Rightarrow> s | _ \<Rightarrow> str_of rt v)"

text \<open>\<open>d.get(k, default)\<close> and \<open>k in d\<close> on a dict.\<close>

definition dict_get :: "(pystr \<times> 'f json) list \<Rightarrow> pystr \<Rightarrow> 'f json \<Rightarrow> 'f json" where
  "dict_get d k dflt = (case map_of d k of Some v \<Rightarrow> v | None \<Rightarrow> dflt)"

definition dict_has :: "(pystr \<times> 'f json) list \<Rightarrow> pystr \<Rightarrow> bool" where
  "dict_has d k = (map_of d k \<noteq> None)"

text \<open>\<open>sep.join(xs)\<close> and \<open>s.replace(old, new)\<close> for a one-character \<open>old\<close>.\<close>

fun py_join :: "pystr \<Rightarrow> pystr list \<Rightarrow> pystr" where
  "py_join sep [] = []"
| "py_join sep [x] = x"
| "py_join sep (x # y # ys) = x @ sep @ py_join sep (y # ys)"

definition replace_char :: "nat \<Rightarrow> pystr \<Rightarrow> pystr \<Rightarrow> pystr" where
  "replace_char old new s = concat (map (\<lambda>c. if c = old then new else [c]) s)"

text \<open>Numbers: \<open>isinstance(v, (int, float))\<close> holds for bool, int and float.\<close>

fun as_number :: "'f json \<Rightarrow> 'f pynum option" where
  "as_number (JBool b) = Some (PInt (if b then 1 else 0))"
| "as_number (JInt i) = Some (PInt i)"
| "as_number (JFloat x) = Some (PFloat x)"
| "as_number _ = None"

definition to_float :: "'f runtime \<Rightarrow> 'f pynum \<Rightarrow> 'f" where
  "to_float rt n = (case n of PInt i \<Rightarrow> float_of_int rt i | PFloat x \<Rightarrow> x)"

definition py_sub :: "'f runtime \<Rightarrow> 'f pynum \<Rightarrow> 'f pynum \<Rightarrow> 'f pynum" where
  "py_sub rt a b =
     (case (a, b) of
        (PInt i, PInt j) \<Rightarrow> PInt (i - j)
      | _ \<Rightarrow> PFloat (float_sub rt (to_float rt a) (to_float rt b)))"

definition py_lt :: "'f runtime \<Rightarrow> 'f pynum \<Rightarrow> 'f pynum \<Rightarrow> bool" where
  "py_lt rt a b =
     (case (a, b) of
        (PInt i, PInt j) \<Rightarrow> i < j
      | _ \<Rightarrow> float_lt rt (to_float rt a) (to_float rt b))"

definition py_num_eq :: "'f runtime \<Rightarrow> 'f pynum \<Rightarrow> 'f pynum \<Rightarrow> bool" where
  "py_num_eq rt a b =
     (case (a, b) of
        (PInt i, PInt j) \<Rightarrow> i = j
      | _ \<Rightarrow> float_eq rt (to_float rt a) (to_float rt b))"

text \<open>\<open>min(a, b)\<close> keeps \<open>a\<close> unless \<open>b < a\<close>; \<open>max(a, b)\<close> keeps \<open>a\<close> unless \<open>b > a\<close>.\<close>

definition py_min :: "'f runtime \<Rightarrow> 'f pynum \<Rightarrow> 'f pynum \<Rightarrow> 'f pynum" where
  "py_min rt a b = (if py_lt rt b a then b else a)"

definition py_max :: "'f runtime \<Rightarrow> 'f pynum \<Rightarrow> 'f pynum \<Rightarrow> 'f pynum" where
  "py_max rt a b = (if py_lt rt a b then b else a)"

definition py_truediv :: "'f runtime \<Rightarrow> 'f pynum \<Rightarrow> 'f pynum \<Rightarrow> 'f" where
  "py_truediv rt a b = float_div rt (to_float rt a) (to_float rt b)"

section \<open>The lore mapper (json_to_lorebook_yaml.py)\<close>

record 'f trigger =
  tr_name :: "'f json"
  tr_type :: pystr
  tr_match :: pystr
  tr_conditional :: pystr
  tr_priority :: "'f pynum"
  tr_block :: bool
  tr_probability :: 'f
  tr_position :: pystr
  tr_content :: "'f json"

text \<open>Why \<open>process_entry\<close> returned \<open>None\<close>; each of the three is logged.\<close>

datatype skip = NotADict | Disabled | Failed pyexc

text \<open>\<open>quote_value\<close>: only a string is quoted, any other value is returned as it is.\<close>

definition quote_str :: "pystr \<Rightarrow> pystr" where
  "quote_str s =
     ascii [CHR 0x22]
     @ replace_char 13 [] (replace_char 10 (ascii [CHR 0x5C, CHR ''n'']) (replace_char 34 (ascii [CHR 0x5C, CHR 0x22]) s))
     @ ascii [CHR 0x22]"

definition quote_value :: "'f json \<Rightarrow> 'f json" where
  "quote_value v = (case v of JStr s \<Rightarrow> JStr (quote_str s) | _ \<Rightarrow> v)"

definition clean_content :: "'f json \<Rightarrow> 'f json" where
  "clean_content v = (case v of JStr s \<Rightarrow> JStr (replace_char 9 (ascii ''  '') s) | _ \<Rightarrow> v)"

text \<open>
  \<open>convert_position\<close> looks the value up in a dict: a list or a dict is unhashable
  (TypeError); a key matches when it is equal in Python's sense, so \<open>False\<close> and \<open>0.0\<close>
  find the key \<open>0\<close>.
\<close>

definition position_map :: "('f json \<times> pystr) list" where
  "position_map =
     [(JInt 0, ascii ''sys_start''),
      (JInt 1, ascii ''sys_end''),
      (JStr (ascii ''0''), ascii ''sys_start''),
      (JStr (ascii ''1''), ascii ''sys_end''),
      (JStr (ascii ''after_char''), ascii ''sys_start''),
      (JStr (ascii ''before_char''), ascii ''sys_start''),
      (JStr (ascii ''before_prompt''), ascii ''sys_start''),
      (JStr (ascii ''after_prompt''), ascii ''sys_end'')]"

definition py_key_eq :: "'f runtime \<Rightarrow> 'f json \<Rightarrow> 'f json \<Rightarrow> bool" where
  "py_key_eq rt k v =
     (case (as_number k, as_number v) of
        (Some a, Some b) \<Rightarrow> py_num_eq rt a b
      | (None, None) \<Rightarrow> k = v
      | _ \<Rightarrow> False)"

fun key_lookup :: "'f runtime \<Rightarrow> ('f json \<times> pystr) list \<Rightarrow> 'f json \<Rightarrow> pystr option" where
  "key_lookup rt [] v = None"
| "key_lookup rt ((k, r) # m) v = (if py_key_eq rt k v then Some r else key_lookup rt m v)"

definition convert_position :: "'f runtime \<Rightarrow> 'f json \<Rightarrow> pyexc + pystr" where
  "convert_position rt pos_value =
     (case pos_value of
        JList _ \<Rightarrow> Inl TypeError
      | JObj _ \<Rightarrow> Inl TypeError
      | _ \<Rightarrow> Inr (case key_lookup rt position_map pos_value of
                    Some r \<Rightarrow> r
                  | None \<Rightarrow> ascii ''sys_start''))"

text \<open>
  \<open>process_match\<close>. \<open>list(keys)\<close> on a dict gives its keys; on a bool or a number it
  raises, and the bare \<open>except\<close> falls back to \<open>[str(keys)]\<close>.
\<close>

definition keys_as_list :: "'f runtime \<Rightarrow> 'f json \<Rightarrow> 'f json list" where
  "keys_as_list rt keys =
     (case keys of
        JStr s \<Rightarrow> [keys]
      | JList l \<Rightarrow> l
      | JObj kvs \<Rightarrow> map (\<lambda>kv. JStr (fst kv)) kvs
      | _ \<Rightarrow> [JStr (py_str rt keys)])"

definition join_keys :: "'f runtime \<Rightarrow> 'f json list \<Rightarrow> pystr" where
  "join_keys rt ks = py_join (ascii ''&'') (map (py_str rt) (filter (py_truthy rt) ks))"

definition process_match :: "'f runtime \<Rightarrow> 'f json \<Rightarrow> 'f json \<Rightarrow> pystr" where
  "process_match rt keys keysecondary =
     (if \<not> py_truthy rt keys then []
      else
        let primary = join_keys rt (keys_as_list rt keys);
            keysecondary' =
              (case keysecondary of
                 JStr s \<Rightarrow> JList [keysecondary]
               | JList l \<Rightarrow> keysecondary
               | _ \<Rightarrow> if py_truthy rt keysecondary
                      then JList (keys_as_list rt keysecondary) else keysecondary);
            secondary =
              (case keysecondary' of
                 JList l \<Rightarrow> if l \<noteq> [] then join_keys rt l else []
               | _ \<Rightarrow> [])
        in if primary \<noteq> [] \<and> secondary \<noteq> []
           then primary @ ascii ''~'' @ secondary
           else primary)"

text \<open>
  The coercion applied to \<open>insertion_order\<close> and to \<open>extensions.probability\<close>: a number is
  kept; otherwise \<open>float(v)\<close> is tried, and only its ValueError (a string that is not a
  number) is caught and replaced by the default 100. \<open>float\<close> of \<open>None\<close>, a list or a dict
  raises TypeError, which this handler does not catch.
\<close>

definition coerce_number :: "'f runtime \<Rightarrow> 'f json \<Rightarrow> pyexc + 'f pynum" where
  "coerce_number rt v =
     (case as_number v of
        Some n \<Rightarrow> Inr n
      | None \<Rightarrow>
          (case v of
             JStr s \<Rightarrow> (case float_of_str rt s of
                          Some x \<Rightarrow> Inr (PFloat x)
                        | None \<Rightarrow> Inr (PInt 100))
           | _ \<Rightarrow> Inl TypeError))"

text \<open>
  \<open>process_entry\<close>: every exception raised inside is caught by its own handler and the
  entry is dropped (\<open>Failed\<close>).
\<close>

definition process_entry :: "'f runtime \<Rightarrow> 'f json \<Rightarrow> 'f json \<Rightarrow> skip + 'f trigger" where
  "process_entry rt entry_id entry =
     (case entry of
        JObj e \<Rightarrow>
          (let raw_entry_name =
                 dict_get e (ascii ''comment'') (JStr (ascii ''entry_'' @ py_str rt entry_id));
               keys = dict_get e (ascii ''keys'') (JList []);
               keysecondary = dict_get e (ascii ''secondary_keys'') (JList []);
               raw_entry_match = process_match rt keys keysecondary
           in case convert_position rt (dict_get e (ascii ''position'') (JStr (ascii ''after_char''))) of
                Inl x \<Rightarrow> Inl (Failed x)
              | Inr raw_entry_position \<Rightarrow>
                 (let raw_entry_content = clean_content (dict_get e (ascii ''content'') (JStr []))
                  in case coerce_number rt (dict_get e (ascii ''insertion_order'') (JInt 100)) of
                       Inl x \<Rightarrow> Inl (Failed x)
                     | Inr entry_order \<Rightarrow>
                        (let entry_priority = py_sub rt (PInt 100) entry_order
                         in case dict_get e (ascii ''extensions'') (JObj []) of
                              JObj extensions \<Rightarrow>
                                (let entry_block =
                                       py_truthy rt (dict_get extensions (ascii ''prevent_recursion'') (JBool False))
                                 in case coerce_number rt (dict_get extensions (ascii ''probability'') (JInt 100)) of
                                      Inl x \<Rightarrow> Inl (Failed x)
                                    | Inr entry_probability_raw \<Rightarrow>
                                       (let entry_probability =
                                              py_truediv rt
                                                (py_max rt (PInt 0) (py_min rt entry_probability_raw (PInt 100)))
                                                (PInt 100)
                                        in if \<not> py_truthy rt (dict_get e (ascii ''enabled'') (JBool True))
                                           then Inl Disabled
                                           else Inr \<lparr> tr_name = quote_value raw_entry_name,
                                                      tr_type = quote_str (ascii ''keywords''),
                                                      tr_match = quote_str raw_entry_match,
                                                      tr_conditional = quote_str [],
                                                      tr_priority = entry_priority,
                                                      tr_block = entry_block,
                                                      tr_probability = entry_probability,
                                                      tr_position = quote_str raw_entry_position,
                                                      tr_content = quote_value raw_entry_content \<rparr>))
                            | _ \<Rightarrow> Inl (Failed AttributeError))))
      | _ \<Rightarrow> Inl NotADict)"

text \<open>
  \<open>extract_entries_from_json\<close>. The first loop reads \<open>entry.get('id', i)\<close> before it
  calls \<open>process_entry\<close>, outside that function's handler: an entry that is not a dict
  raises AttributeError there. A trigger is a non-empty dict, so \<open>if trigger:\<close> holds
  exactly when \<open>process_entry\<close> did not return \<open>None\<close>.
\<close>

definition keep :: "skip + 'f trigger \<Rightarrow> 'f trigger list" where
  "keep r = (case r of Inr t \<Rightarrow> [t] | Inl _ \<Rightarrow> [])"

definition get_dict :: "(pystr \<times> 'f json) list \<Rightarrow> pystr \<Rightarrow> (pystr \<times> 'f json) list option" where
  "get_dict d k = (case map_of d k of Some (JObj ob) \<Rightarrow> Some ob | _ \<Rightarrow> None)"

definition get_list :: "(pystr \<times> 'f json) list \<Rightarrow> pystr \<Rightarrow> 'f json list option" where
  "get_list d k = (case map_of d k of Some (JList l) \<Rightarrow> Some l | _ \<Rightarrow> None)"

definition data_character_book_entries :: "(pystr \<times> 'f json) list \<Rightarrow> 'f json list option" where
  "data_character_book_entries data =
     (case get_dict data (ascii ''data'') of
        Some d \<Rightarrow>
          (case get_dict d (ascii ''character_book'') of
             Some cb \<Rightarrow> get_list cb (ascii ''entries'')
           | None \<Rightarrow> None)
      | None \<Rightarrow> None)"

definition character_book_entries :: "(pystr \<times> 'f json) list \<Rightarrow> 'f json list option" where
  "character_book_entries data =
     (case get_dict data (ascii ''character_book'') of
        Some cb \<Rightarrow> get_list cb (ascii ''entries'')
      | None \<Rightarrow> None)"

fun data_entries_loop :: "'f runtime \<Rightarrow> nat \<Rightarrow> 'f json list \<Rightarrow> pyexc + 'f trigger list" where
  "data_entries_loop rt i [] = Inr []"
| "data_entries_loop rt i (entry # rest) =
     (case entry of
        JObj e \<Rightarrow>
          (let trigger = process_entry rt (dict_get e (ascii ''id'') (JInt (int i))) entry
           in case data_entries_loop rt (Suc i) rest of
                Inl x \<Rightarrow> Inl x
              | Inr ts \<Rightarrow> Inr (keep trigger @ ts))
      | _ \<Rightarrow> Inl AttributeError)"

definition book_entries_loop :: "'f runtime \<Rightarrow> 'f json list \<Rightarrow> 'f trigger list" where
  "book_entries_loop rt entries_list =
     concat (map (\<lambda>(i, entry). keep (process_entry rt (JInt (int i)) entry))
                 (enumerate 0 entries_list))"

definition entries_map_loop :: "'f runtime \<Rightarrow> (pystr \<times> 'f json) list \<Rightarrow> 'f trigger list" where
  "entries_map_loop rt entries =
     concat (map (\<lambda>(entry_id, entry). keep (process_entry rt (JStr entry_id) entry)) entries)"

definition looks_like_entry :: "(pystr \<times> 'f json) list \<Rightarrow> bool" where
  "looks_like_entry data =
     list_ex (dict_has data)
       [ascii ''keys'', ascii ''comment'', ascii ''content'', ascii ''insertion_order'']"

definition top_level_dicts_loop :: "'f runtime \<Rightarrow> (pystr \<times> 'f json) list \<Rightarrow> 'f trigger list" where
  "top_level_dicts_loop rt data =
     concat (map (\<lambda>(key, val).
                    case val of JObj _ \<Rightarrow> keep (process_entry rt (JStr key) val) | _ \<Rightarrow> [])
                 data)"

definition array_items_loop :: "'f runtime \<Rightarrow> pystr \<Rightarrow> 'f json list \<Rightarrow> 'f trigger list" where
  "array_items_loop rt field_name array =
     concat (map (\<lambda>(i, item).
                    case item of
                      JObj _ \<Rightarrow>
                        keep (process_entry rt
                                (JStr (field_name @ ascii ''_'' @ py_str rt (JInt (int i + 1)))) item)
                    | _ \<Rightarrow> [])
                 (enumerate 0 array))"

definition array_fields_loop :: "'f runtime \<Rightarrow> (pystr \<times> 'f json) list \<Rightarrow> 'f trigger list" where
  "array_fields_loop rt data =
     concat (map (\<lambda>(field_name, val).
                    case val of JList array \<Rightarrow> array_items_loop rt field_name array | _ \<Rightarrow> [])
                 data)"

definition default_entry :: "'f runtime \<Rightarrow> (pystr \<times> 'f json) list \<Rightarrow> pystr \<Rightarrow> 'f json" where
  "default_entry rt data source_file =
     (let basename = (if source_file \<noteq> [] then path_basename rt source_file else ascii ''unknown'');
          name = path_splitext_root rt basename
      in JObj [(ascii ''keys'', JList [JStr name]),
               (ascii ''comment'', JStr ([0x4ECE] @ basename @ [0x751F, 0x6210])),
               (ascii ''content'', JStr (json_dumps_indent rt (JObj data))),
               (ascii ''insertion_order'', JInt 100),
               (ascii ''extensions'', JObj [(ascii ''probability'', JInt 100)])])"

definition extract_entries_from_json ::
  "'f runtime \<Rightarrow> (pystr \<times> 'f json) list \<Rightarrow> pystr \<Rightarrow> pyexc + 'f trigger list" where
  "extract_entries_from_json rt data source_file =
     (case data_character_book_entries data of
        Some entries_list \<Rightarrow> data_entries_loop rt 0 entries_list
      | None \<Rightarrow>
     (case character_book_entries data of
        Some entries_list \<Rightarrow> Inr (book_entries_loop rt entries_list)
      | None \<Rightarrow>
     (case get_dict data (ascii ''entries'') of
        Some entries \<Rightarrow> Inr (entries_map_loop rt entries)
      | None \<Rightarrow>
     (if looks_like_entry data
      then Inr (keep (process_entry rt (JStr (ascii ''1'')) (JObj data)))
      else if top_level_dicts_loop rt data \<noteq> []
      then Inr (top_level_dicts_loop rt data)
      else if array_fields_loop rt data \<noteq> []
      then Inr (array_fields_loop rt data)
      else Inr (keep (process_entry rt (JStr (ascii ''default''))
                        (default_entry rt data source_file)))))))"

text \<open>
  \<open>convert_json_to_yaml\<close> resets \<open>yaml_data\<close>, stores the extracted triggers and appends
  the fallback trigger when there is none; any exception gives \<open>False\<close> and leaves the
  reset \<open>yaml_data\<close>. The counter \<open>entries_processed\<close> is only written to the log and is
  left out.
\<close>

record 'f yaml_data =
  yd_world_state :: "(pystr \<times> 'f json) list"
  yd_user_state :: "'f json list"
  yd_trigger :: "'f trigger list"

definition fallback_trigger :: "'f runtime \<Rightarrow> 'f trigger" where
  "fallback_trigger rt =
     \<lparr> tr_name = JStr [0x9ED8, 0x8BA4, 0x6761, 0x76EE],
       tr_type = ascii ''keywords'',
       tr_match = [],
       tr_conditional = [],
       tr_priority = PInt 50,
       tr_block = False,
       tr_probability = float_of_int rt 1,
       tr_position = ascii ''sys_start'',
       tr_content =
         JStr [0x65E0, 0x6CD5, 0x4ECE, 0x6E90, 0x6570, 0x636E, 0x63D0, 0x53D6, 0x6709, 0x6548,
               0x5185, 0x5BB9, 0xFF0C, 0x8FD9, 0x662F, 0x4E00, 0x4E2A, 0x81EA, 0x52A8, 0x751F,
               0x6210, 0x7684, 0x9ED8, 0x8BA4, 0x6761, 0x76EE, 0x3002] \<rparr>"

definition convert_json_to_yaml ::
  "'f runtime \<Rightarrow> (pystr \<times> 'f json) list \<Rightarrow> pystr \<Rightarrow> bool \<times> 'f yaml_data" where
  "convert_json_to_yaml rt json_data source_file =
     (case extract_entries_from_json rt json_data source_file of
        Inl x \<Rightarrow> (False, \<lparr> yd_world_state = [], yd_user_state = [], yd_trigger = [] \<rparr>)
      | Inr triggers \<Rightarrow>
          (True, \<lparr> yd_world_state = [], yd_user_state = [],
                   yd_trigger = (if triggers = [] then [fallback_trigger rt] else triggers) \<rparr>))"

section \<open>The character summary (main.py)\<close>

text \<open>
  \<open>_extract_character_info\<close>: the \<open>if\<close>/\<open>elif\<close> chain that resolves \<open>first_mes_raw\<close>.
  The branches for \<open>first_mes\<close>, \<open>begin_dialogs\<close>, \<open>greeting\<close> and \<open>char_greeting\<close> test
  only that the key is present; those for \<open>example_dialog\<close> and \<open>alternate_greetings\<close>
  also test that the value is truthy. Inside a taken branch nothing falls through to a
  later one: \<open>first_mes_raw\<close> keeps its initial \<open>""\<close> when the value has no usable shape.
\<close>

definition first_of_list :: "'f json \<Rightarrow> 'f json" where
  "first_of_list v = (case v of JList (x # xs) \<Rightarrow> x | _ \<Rightarrow> JStr [])"

definition first_mes_raw :: "'f runtime \<Rightarrow> (pystr \<times> 'f json) list \<Rightarrow> 'f json" where
  "first_mes_raw rt json_data =
     (if dict_has json_data (ascii ''first_mes'')
      then dict_get json_data (ascii ''first_mes'') JNull
      else if dict_has json_data (ascii ''begin_dialogs'')
      then (let begin_dialogs = dict_get json_data (ascii ''begin_dialogs'') JNull
            in case begin_dialogs of
                 JList (x # xs) \<Rightarrow> x
               | JStr s \<Rightarrow> begin_dialogs
               | _ \<Rightarrow> JStr [])
      else if dict_has json_data (ascii ''greeting'')
      then dict_get json_data (ascii ''greeting'') JNull
      else if dict_has json_data (ascii ''example_dialog'')
              \<and> py_truthy rt (dict_get json_data (ascii ''example_dialog'') JNull)
      then first_of_list (dict_get json_data (ascii ''example_dialog'') JNull)
      else if dict_has json_data (ascii ''char_greeting'')
      then dict_get json_data (ascii ''char_greeting'') JNull
      else if dict_has json_data (ascii ''alternate_greetings'')
              \<and> py_truthy rt (dict_get json_data (ascii ''alternate_greetings'') JNull)
      then first_of_list (dict_get json_data (ascii ''alternate_greetings'') JNull)
      else JStr [])"

text \<open>
  The summary text. A document that is not a dict has no \<open>get\<close>: the AttributeError is
  caught by the function's handler, which returns the empty string.
\<close>

definition extract_character_info :: "'f runtime \<Rightarrow> 'f json \<Rightarrow> pystr" where
  "extract_character_info rt doc =
     (case doc of
        JObj json_data \<Rightarrow>
          (let name = py_str rt (dict_get json_data (ascii ''name'') (JStr []));
               description = py_str rt (dict_get json_data (ascii ''description'') (JStr []));
               first_mes = py_str rt (first_mes_raw rt json_data)
           in ascii ''name: '' @ quote_str name @ [10, 10]
              @ ascii ''prompt: '' @ quote_str description @ [10, 10]
              @ ascii ''first_mes: '' @ quote_str first_mes)
      | _ \<Rightarrow> [])"

section \<open>The PNG metadata codec (character_card_parser.py)\<close>

subsection \<open>Library functions\<close>

text \<open>
  \<open>json.loads\<close> (\<open>None\<close> when it raises), \<open>json.dumps\<close> and \<open>zlib.crc32\<close> are taken as
  parameters.
\<close>

record 'f codec_lib =
  json_loads :: "pystr \<Rightarrow> 'f json option"
  json_dumps :: "'f json \<Rightarrow> pystr"
  crc32 :: "bytes \<Rightarrow> 32 word"

text \<open>
  The \<open>iso-8859-1\<close> and \<open>ascii\<close> codecs. Decoding Latin-1 never fails; encoding fails on
  a code point above 255 (Latin-1) or above 127 (ASCII).
\<close>

definition latin1_decode :: "bytes \<Rightarrow> pystr" where
  "latin1_decode bs = map of_char bs"

definition latin1_encode :: "pystr \<Rightarrow> bytes option" where
  "latin1_encode s = (if list_all (\<lambda>c. c < 256) s then Some (map char_of s) else None)"

definition ascii_encode :: "pystr \<Rightarrow> bytes option" where
  "ascii_encode s = (if list_all (\<lambda>c. c < 128) s then Some (map char_of s) else None)"

text \<open>
  \<open>str.lower\<close> on the code points below 256, which is all that a Latin-1 decoded keyword
  holds: the letters A-Z and the capital letters U+00C0-U+00DE except the multiplication
  sign U+00D7.
\<close>

definition lower_cp :: "nat \<Rightarrow> nat" where
  "lower_cp c =
     (if 65 \<le> c \<and> c \<le> 90 then c + 32
      else if 192 \<le> c \<and> c \<le> 222 \<and> c \<noteq> 215 then c + 32
      else c)"

definition py_lower :: "pystr \<Rightarrow> pystr" where
  "py_lower s = map lower_cp s"

text \<open>
  The UTF-8 codec with strict error handling. A surrogate code point cannot be encoded
  (UnicodeEncodeError); the decoder rejects truncated, overlong and surrogate sequences
  and values above U+10FFFF.
\<close>

definition utf8_encode_cp :: "nat \<Rightarrow> bytes option" where
  "utf8_encode_cp c =
     (if c < 0x80 then Some [char_of c]
      else if c < 0x800 then Some [char_of (0xC0 + c div 64), char_of (0x80 + c mod 64)]
      else if c < 0x10000 then
        (if 0xD800 \<le> c \<and> c < 0xE000 then None
         else Some [char_of (0xE0 + c div 4096), char_of (0x80 + c div 64 mod 64),
                    char_of (0x80 + c mod 64)])
      else if c < 0x110000 then
        Some [char_of (0xF0 + c div 262144), char_of (0x80 + c div 4096 mod 64),
              char_of (0x80 + c div 64 mod 64), char_of (0x80 + c mod 64)]
      else None)"

fun utf8_encode :: "pystr \<Rightarrow> bytes option" where
  "utf8_encode [] = Some []"
| "utf8_encode (c # cs) =
     (case utf8_encode_cp c of
        None \<Rightarrow> None
      | Some bs \<Rightarrow> (case utf8_encode cs of None \<Rightarrow> None | Some r \<Rightarrow> Some (bs @ r)))"

definition is_cont :: "char \<Rightarrow> bool" where
  "is_cont b = (0x80 \<le> (of_char b :: nat) \<and> (of_char b :: nat) < 0xC0)"

definition cont_bits :: "char \<Rightarrow> nat" where
  "cont_bits b = of_char b - 0x80"

fun utf8_decode :: "bytes \<Rightarrow> pystr option" where
  "utf8_decode [] = Some []"
| "utf8_decode (b # bs) =
     (let b0 = (of_char b :: nat) in
      if b0 < 0x80 then map_option (Cons b0) (utf8_decode bs)
      else if 0xC2 \<le> b0 \<and> b0 < 0xE0 then
        (case bs of
           b1 # r \<Rightarrow>
             if is_cont b1
             then map_option (Cons ((b0 - 0xC0) * 64 + cont_bits b1)) (utf8_decode r)
             else None
         | _ \<Rightarrow> None)
      else if 0xE0 \<le> b0 \<and> b0 < 0xF0 then
        (case bs of
           b1 # b2 # r \<Rightarrow>
             (let c = (b0 - 0xE0) * 4096 + cont_bits b1 * 64 + cont_bits b2 in
              if is_cont b1 \<and> is_cont b2 \<and> 0x800 \<le> c \<and> \<not> (0xD800 \<le> c \<and> c < 0xE000)
              then map_option (Cons c) (utf8_decode r)
              else None)
         | _ \<Rightarrow> None)
      else if 0xF0 \<le> b0 \<and> b0 < 0xF5 then
        (case bs of
           b1 # b2 # b3 # r \<Rightarrow>
             (let c = (b0 - 0xF0) * 262144 + cont_bits b1 * 4096 + cont_bits b2 * 64 + cont_bits b3 in
              if is_cont b1 \<and> is_cont b2 \<and> is_cont b3 \<and> 0x10000 \<le> c \<and> c < 0x110000
              then map_option (Cons c) (utf8_decode r)
              else None)
         | _ \<Rightarrow> None)
      else None)"

text \<open>
  \<open>base64.b64encode\<close>: three bytes give four characters of the alphabet
  \<open>A-Z a-z 0-9 + /\<close>, a shorter last group is padded with \<open>=\<close>.
\<close>

definition b64_char :: "nat \<Rightarrow> char" where
  "b64_char v =
     (if v < 26 then char_of (65 + v)
      else if v < 52 then char_of (71 + v)
      else if v < 62 then char_of (v - 4)
      else if v = 62 then CHR ''+''
      else CHR ''/'')"

fun b64encode :: "bytes \<Rightarrow> bytes" where
  "b64encode [] = []"
| "b64encode [a] =
     (let x = (of_char a :: nat)
      in [b64_char (x div 4), b64_char (x mod 4 * 16), CHR ''='', CHR ''=''])"
| "b64encode [a, b] =
     (let x = (of_char a :: nat); y = (of_char b :: nat)
      in [b64_char (x div 4), b64_char (x mod 4 * 16 + y div 16), b64_char (y mod 16 * 4),
          CHR ''=''])"
| "b64encode (a # b # c # rest) =
     (let x = (of_char a :: nat); y = (of_char b :: nat); z = (of_char c :: nat)
      in [b64_char (x div 4), b64_char (x mod 4 * 16 + y div 16),
          b64_char (y mod 16 * 4 + z div 64), b64_char (z mod 64)]
         @ b64encode rest)"

text \<open>
  \<open>base64.b64decode\<close> with its default \<open>validate=False\<close>, that is the loop of CPython's
  \<open>binascii.a2b_base64\<close>: characters outside the alphabet are skipped, \<open>quad_pos\<close> counts
  the characters of the current group, \<open>leftchar\<close> holds the bits not yet written, and a
  pad character ends the input once the group is complete with it. Input that ends
  inside a group is an error (\<open>None\<close>).
\<close>

definition b64_value :: "char \<Rightarrow> nat option" where
  "b64_value c =
     (let n = (of_char c :: nat) in
      if 65 \<le> n \<and> n \<le> 90 then Some (n - 65)
      else if 97 \<le> n \<and> n \<le> 122 then Some (n - 71)
      else if 48 \<le> n \<and> n \<le> 57 then Some (n + 4)
      else if c = CHR ''+'' then Some 62
      else if c = CHR ''/'' then Some 63
      else None)"

fun a2b_base64 :: "bytes \<Rightarrow> nat \<Rightarrow> nat \<Rightarrow> nat \<Rightarrow> bytes \<Rightarrow> bytes option" where
  "a2b_base64 [] quad_pos leftchar pads out = (if quad_pos \<noteq> 0 then None else Some out)"
| "a2b_base64 (c # cs) quad_pos leftchar pads out =
     (if c = CHR ''='' then
        (if quad_pos \<ge> 2 \<and> quad_pos + (pads + 1) \<ge> 4 then Some out
         else a2b_base64 cs quad_pos leftchar (if quad_pos \<ge> 2 then pads + 1 else pads) out)
      else
        (case b64_value c of
           None \<Rightarrow> a2b_base64 cs quad_pos leftchar pads out
         | Some v \<Rightarrow>
             (if quad_pos = 0 then a2b_base64 cs 1 v 0 out
              else if quad_pos = 1 then
                a2b_base64 cs 2 (v mod 16) 0 (out @ [char_of (leftchar * 4 + v div 16)])
              else if quad_pos = 2 then
                a2b_base64 cs 3 (v mod 4) 0 (out @ [char_of (leftchar * 16 + v div 4)])
              else a2b_base64 cs 0 0 0 (out @ [char_of (leftchar * 64 + v)]))))"

text \<open>\<open>base64.b64decode(s)\<close> on a \<open>str\<close>: a character that is not ASCII is an error.\<close>

definition b64decode :: "pystr \<Rightarrow> bytes option" where
  "b64decode s = (case ascii_encode s of None \<Rightarrow> None | Some bs \<Rightarrow> a2b_base64 bs 0 0 0 [])"

text \<open>\<open>struct.pack('>I', n)\<close> raises \<open>struct.error\<close> unless \<open>0 \<le> n < 2\<^sup>3\<^sup>2\<close>.\<close>

definition u32_bytes :: "nat \<Rightarrow> bytes" where
  "u32_bytes n =
     [char_of (n div 16777216 mod 256), char_of (n div 65536 mod 256),
      char_of (n div 256 mod 256), char_of (n mod 256)]"

definition pack_u32 :: "nat \<Rightarrow> bytes option" where
  "pack_u32 n = (if n < 4294967296 then Some (u32_bytes n) else None)"

definition be32 :: "bytes \<Rightarrow> nat" where
  "be32 bs = foldl (\<lambda>a c. a * 256 + of_char c) 0 bs"

subsection \<open>The chunk reader\<close>

type_synonym chunk = "bytes \<times> bytes"

definition png_signature :: bytes where
  "png_signature = [CHR 0x89, CHR ''P'', CHR ''N'', CHR ''G'', CHR 0x0D, CHR 0x0A, CHR 0x1A, CHR 0x0A]"

text \<open>
  Modelled from the spec: the chunk reader \<open>png.Reader(bytes=...).chunks()\<close> belongs to
  the pypng package, whose source is not part of the repository. Following section 4.1
  of the specification, the reader validates the fixed 8-byte signature and fails with
  the format error if it is absent; it then parses the rest of the buffer with the
  chunk grammar: a 4-byte big-endian length, a 4-byte type tag, that many bytes of
  payload and a 4-byte CRC, which is not verified on read. A buffer that ends inside a
  chunk is unparseable.
\<close>

function png_chunk_stream :: "bytes \<Rightarrow> pyexc + chunk list" where
  "png_chunk_stream bs =
     (if bs = [] then Inr []
      else if length bs < 8 then Inl PngError
      else
        (let n = be32 (take 4 bs); chunk_type = take 4 (drop 4 bs); rest = drop 8 bs
         in if length rest < n + 4 then Inl PngError
            else (case png_chunk_stream (drop (n + 4) rest) of
                    Inl e \<Rightarrow> Inl e
                  | Inr cs \<Rightarrow> Inr ((chunk_type, take n rest) # cs))))"
  by pat_completeness auto
termination
  by (relation "measure length") auto

definition png_chunks :: "bytes \<Rightarrow> pyexc + chunk list" where
  "png_chunks image_bytes =
     (if take 8 image_bytes \<noteq> png_signature then Inl PngError
      else png_chunk_stream (drop 8 image_bytes))"

subsection \<open>Text chunks\<close>

text \<open>
  \<open>_decode_text_chunk\<close>: \<open>split(b'\x00', 1)\<close> gives a single piece when the data has no
  null byte, and unpacking it into two names raises ValueError (\<open>None\<close>).
\<close>

definition decode_text_chunk :: "bytes \<Rightarrow> (pystr \<times> pystr) option" where
  "decode_text_chunk chunk_data =
     (if CHR 0x00 \<in> set chunk_data
      then Some (latin1_decode (takeWhile (\<lambda>c. c \<noteq> CHR 0x00) chunk_data),
                 latin1_decode (tl (dropWhile (\<lambda>c. c \<noteq> CHR 0x00) chunk_data)))
      else None)"

definition encode_text_chunk :: "pystr \<Rightarrow> pystr \<Rightarrow> bytes option" where
  "encode_text_chunk keyword text =
     (case latin1_encode keyword of
        None \<Rightarrow> None
      | Some k \<Rightarrow> (case latin1_encode text of None \<Rightarrow> None | Some t \<Rightarrow> Some (k @ [CHR 0x00] @ t)))"

text \<open>A Python dict as an association list: \<open>d[k] = v\<close> keeps the position of a key.\<close>

fun py_setitem :: "('k \<times> 'v) list \<Rightarrow> 'k \<Rightarrow> 'v \<Rightarrow> ('k \<times> 'v) list" where
  "py_setitem [] k v = [(k, v)]"
| "py_setitem ((k', v') # d) k v = (if k' = k then (k, v) # d else (k', v') # py_setitem d k v)"

subsection \<open>write_metadata\<close>

text \<open>
  The filter over the original chunks: a \<open>tEXt\<close> chunk is dropped when it decodes and
  its lower-cased keyword is \<open>chara\<close> or \<open>ccv3\<close>; a \<open>tEXt\<close> chunk that does not decode
  and every other chunk is kept.
\<close>

definition keep_chunk :: "chunk \<Rightarrow> bool" where
  "keep_chunk ch =
     (if fst ch = ''tEXt''
      then (case decode_text_chunk (snd ch) of
              Some (keyword, text) \<Rightarrow>
                py_lower keyword \<noteq> ascii ''chara'' \<and> py_lower keyword \<noteq> ascii ''ccv3''
            | None \<Rightarrow> True)
      else True)"

text \<open>
  The \<open>chara\<close> chunk: Base64 of the UTF-8 bytes of the raw text. This part is outside
  any handler, so a text that cannot be encoded makes \<open>write_metadata\<close> raise. The
  output of \<open>b64encode\<close> is ASCII, so its \<open>decode('ascii')\<close> is total.
\<close>

definition v2_chunk :: "pystr \<Rightarrow> pyexc + chunk" where
  "v2_chunk data =
     (case utf8_encode data of
        None \<Rightarrow> Inl UnicodeEncodeError
      | Some db \<Rightarrow>
          (case encode_text_chunk (ascii ''chara'') (latin1_decode (b64encode db)) of
             None \<Rightarrow> Inl UnicodeEncodeError
           | Some v2_chunk_data \<Rightarrow> Inr (''tEXt'', v2_chunk_data)))"

text \<open>
  The \<open>ccv3\<close> chunk: the text is parsed, \<open>spec\<close> and \<open>spec_version\<close> are set on the result
  and it is serialised again. Every exception in this part is caught and leaves
  \<open>v3_chunk_tuple\<close> at \<open>None\<close>: invalid JSON, and also a JSON value that is not an object,
  on which the item assignment raises TypeError.
\<close>

definition with_spec :: "(pystr \<times> 'f json) list \<Rightarrow> (pystr \<times> 'f json) list" where
  "with_spec d =
     py_setitem (py_setitem d (ascii ''spec'') (JStr (ascii ''chara_card_v3'')))
       (ascii ''spec_version'') (JStr (ascii ''3.0''))"

definition v3_json_string :: "'f codec_lib \<Rightarrow> pystr \<Rightarrow> pystr option" where
  "v3_json_string lib data =
     (case json_loads lib data of
        Some (JObj v3_data_dict) \<Rightarrow> Some (json_dumps lib (JObj (with_spec v3_data_dict)))
      | _ \<Rightarrow> None)"

definition v3_chunk :: "'f codec_lib \<Rightarrow> pystr \<Rightarrow> chunk option" where
  "v3_chunk lib data =
     (case v3_json_string lib data of
        None \<Rightarrow> None
      | Some s \<Rightarrow>
          (case utf8_encode s of
             None \<Rightarrow> None
           | Some sb \<Rightarrow>
               (case encode_text_chunk (ascii ''ccv3'') (latin1_decode (b64encode sb)) of
                  None \<Rightarrow> None
                | Some v3_chunk_data \<Rightarrow> Some (''tEXt'', v3_chunk_data))))"

text \<open>
  The new chunks go before the first \<open>IEND\<close> chunk, or at the end when there is none.
\<close>

definition insert_chunks :: "chunk list \<Rightarrow> chunk \<Rightarrow> chunk option \<Rightarrow> chunk list" where
  "insert_chunks new_chunks v2_chunk_tuple v3_chunk_tuple =
     (let v3 = (case v3_chunk_tuple of None \<Rightarrow> [] | Some c \<Rightarrow> [c]) in
      if list_ex (\<lambda>ch. fst ch = ''IEND'') new_chunks
      then takeWhile (\<lambda>ch. fst ch \<noteq> ''IEND'') new_chunks @ [v2_chunk_tuple] @ v3
           @ dropWhile (\<lambda>ch. fst ch \<noteq> ''IEND'') new_chunks
      else new_chunks @ [v2_chunk_tuple] @ v3)"

text \<open>
  The byte stream is rebuilt chunk by chunk: packed length, type, data and the CRC of
  type and data.
\<close>

fun write_chunks :: "'f codec_lib \<Rightarrow> chunk list \<Rightarrow> pyexc + bytes" where
  "write_chunks lib [] = Inr []"
| "write_chunks lib ((chunk_type, chunk_data) # cs) =
     (case pack_u32 (length chunk_data) of
        None \<Rightarrow> Inl StructError
      | Some len \<Rightarrow>
          (case write_chunks lib cs of
             Inl e \<Rightarrow> Inl e
           | Inr r \<Rightarrow>
               Inr (len @ chunk_type @ chunk_data
                    @ u32_bytes (unat (crc32 lib (chunk_type @ chunk_data))) @ r)))"

definition write_metadata :: "'f codec_lib \<Rightarrow> bytes \<Rightarrow> pystr \<Rightarrow> pyexc + bytes" where
  "write_metadata lib image_bytes data =
     (if take (length png_signature) image_bytes \<noteq> png_signature then Inl PngError
      else
        (case png_chunks image_bytes of
           Inl e \<Rightarrow> Inl e
         | Inr original_chunks \<Rightarrow>
             (let new_chunks = filter keep_chunk original_chunks
              in case v2_chunk data of
                   Inl e \<Rightarrow> Inl e
                 | Inr v2_chunk_tuple \<Rightarrow>
                     (case write_chunks lib
                             (insert_chunks new_chunks v2_chunk_tuple (v3_chunk lib data)) of
                        Inl e \<Rightarrow> Inl e
                      | Inr body \<Rightarrow> Inr (png_signature @ body)))))"

subsection \<open>read_metadata\<close>

text \<open>
  The text chunks are collected into a dict under the lower-cased keyword, a later
  chunk replacing an earlier one; a chunk that does not decode is skipped.
\<close>

fun collect_text :: "chunk list \<Rightarrow> (pystr \<times> pystr) list \<Rightarrow> (pystr \<times> pystr) list" where
  "collect_text [] text_chunks_data = text_chunks_data"
| "collect_text ((chunk_type, chunk_data) # cs) text_chunks_data =
     (if chunk_type = ''tEXt''
      then (case decode_text_chunk chunk_data of
              Some (keyword, text) \<Rightarrow>
                collect_text cs (py_setitem text_chunks_data (py_lower keyword) text)
            | None \<Rightarrow> collect_text cs text_chunks_data)
      else collect_text cs text_chunks_data)"

text \<open>
  The payload of a reserved keyword: any failure of the Base64 or the UTF-8 decoding
  is raised as ValueError.
\<close>

definition decode_payload :: "pystr \<Rightarrow> pyexc + pystr option" where
  "decode_payload text =
     (case b64decode text of
        None \<Rightarrow> Inl ValueError
      | Some bs \<Rightarrow> (case utf8_decode bs of None \<Rightarrow> Inl ValueError | Some s \<Rightarrow> Inr (Some s)))"

definition read_metadata :: "bytes \<Rightarrow> pyexc + pystr option" where
  "read_metadata image_bytes =
     (case png_chunks image_bytes of
        Inl e \<Rightarrow> Inl e
      | Inr chunks \<Rightarrow>
          (let text_chunks_data = collect_text chunks []
           in if text_chunks_data = [] then Inr None
              else (case map_of text_chunks_data (ascii ''ccv3'') of
                      Some text \<Rightarrow> decode_payload text
                    | None \<Rightarrow>
                        (case map_of text_chunks_data (ascii ''chara'') of
                           Some text \<Rightarrow> decode_payload text
                         | None \<Rightarrow> Inr None))))"

subsection \<open>Notions used to state the properties of the codec\<close>

text \<open>
  The text record of a chunk, if it is a \<open>tEXt\<close> chunk that decodes, under its
  lower-cased keyword; the text records of a chunk sequence in file order; and the text
  of the last record with a given keyword.
\<close>

definition text_entry :: "chunk \<Rightarrow> (pystr \<times> pystr) option" where
  "text_entry ch =
     (if fst ch = ''tEXt''
      then (case decode_text_chunk (snd ch) of
              Some (keyword, text) \<Rightarrow> Some (py_lower keyword, text)
            | None \<Rightarrow> None)
      else None)"

definition text_entries :: "chunk list \<Rightarrow> (pystr \<times> pystr) list" where
  "text_entries cs = List.map_filter text_entry cs"

definition last_text :: "chunk list \<Rightarrow> pystr \<Rightarrow> pystr option" where
  "last_text cs keyword = map_of (rev (text_entries cs)) keyword"

text \<open>
  The text that \<open>write_metadata\<close> stores for \<open>read_metadata\<close> to find: the re-serialised
  document with the two \<open>spec\<close> fields when the \<open>ccv3\<close> chunk is built, the raw text
  otherwise.
\<close>

definition written_payload :: "'f codec_lib \<Rightarrow> pystr \<Rightarrow> pystr" where
  "written_payload lib data =
     (case v3_json_string lib data of
        Some s \<Rightarrow> (if utf8_encode s = None then data else s)
      | None \<Rightarrow> data)"

text \<open>The \<open>tEXt\<close> chunk that holds a payload under a keyword.\<close>

definition text_chunk :: "bytes \<Rightarrow> bytes \<Rightarrow> chunk" where
  "text_chunk keyword payload = (''tEXt'', keyword @ [CHR 0x00] @ payload)"

section \<open>Sample data\<close>

subsection \<open>A concrete runtime for evaluating sample documents\<close>

text \<open>
  Floats are rationals, \<open>float(s)\<close> accepts the unsigned decimal integers, \<open>str\<close> renders
  \<open>None\<close>, the booleans and the integers, \<open>os.path.basename\<close> cuts at the last slash;
  \<open>json.dumps\<close> and \<open>splitext\<close> are stand-ins (a fixed text, the name unchanged). The
  general theorems below hold for every runtime; this one only serves to run the
  definitions on concrete documents.
\<close>

definition is_digit :: "nat \<Rightarrow> bool" where
  "is_digit c = (48 \<le> c \<and> c \<le> 57)"

definition parse_digits :: "pystr \<Rightarrow> rat option" where
  "parse_digits s =
     (if s \<noteq> [] \<and> list_all is_digit s
      then Some (of_nat (foldl (\<lambda>a c. 10 * a + (c - 48)) 0 s))
      else None)"

function dec_nat :: "nat \<Rightarrow> pystr" where
  "dec_nat n = (if n < 10 then [48 + n] else dec_nat (n div 10) @ [48 + n mod 10])"
  by pat_completeness auto
termination
  by (relation "measure id") auto

definition sample_str :: "rat json \<Rightarrow> pystr" where
  "sample_str v =
     (case v of
        JNull \<Rightarrow> ascii ''None''
      | JBool b \<Rightarrow> (if b then ascii ''True'' else ascii ''False'')
      | JInt i \<Rightarrow> (if i < 0 then ascii ''-'' @ dec_nat (nat (- i)) else dec_nat (nat i))
      | JStr s \<Rightarrow> s
      | _ \<Rightarrow> ascii ''?'')"

definition sample_runtime :: "rat runtime" where
  "sample_runtime =
     \<lparr> float_of_str = parse_digits,
       float_of_int = of_int,
       float_sub = (\<lambda>a b. a - b),
       float_div = (\<lambda>a b. a / b),
       float_lt = (\<lambda>a b. a < b),
       float_eq = (\<lambda>a b. a = b),
       str_of = sample_str,
       json_dumps_indent = (\<lambda>v. ascii ''{}''),
       path_basename = (\<lambda>p. rev (takeWhile (\<lambda>c. c \<noteq> 47) (rev p))),
       path_splitext_root = (\<lambda>p. p) \<rparr>"

definition doc_empty_book :: "(pystr \<times> rat json) list" where
  "doc_empty_book =
     [(ascii ''data'', JObj [(ascii ''character_book'', JObj [(ascii ''entries'', JList [])])]),
      (ascii ''entries'', JObj [(ascii ''a'', JObj [(ascii ''content'', JStr (ascii ''x''))])])]"

definition doc_empty_first_mes :: "(pystr \<times> rat json) list" where
  "doc_empty_first_mes =
     [(ascii ''name'', JStr (ascii ''Ann'')),
      (ascii ''first_mes'', JStr []),
      (ascii ''greeting'', JStr (ascii ''hello''))]"

definition doc_book_only :: "(pystr \<times> rat json) list" where
  "doc_book_only = [(ascii ''character_book'', JObj [(ascii ''entries'', JList [])])]"

definition doc_entries_only :: "(pystr \<times> rat json) list" where
  "doc_entries_only = [(ascii ''entries'', JObj [])]"

definition doc_disabled_entry :: "(pystr \<times> rat json) list" where
  "doc_disabled_entry = [(ascii ''content'', JStr (ascii ''x'')), (ascii ''enabled'', JBool False)]"

definition doc_begin_dialogs :: "(pystr \<times> rat json) list" where
  "doc_begin_dialogs =
     [(ascii ''begin_dialogs'', JList [JStr (ascii ''hi'')]),
      (ascii ''greeting'', JStr (ascii ''hello''))]"

definition doc_greeting :: "(pystr \<times> rat json) list" where
  "doc_greeting =
     [(ascii ''greeting'', JStr (ascii ''hello'')),
      (ascii ''char_greeting'', JStr (ascii ''cg''))]"

definition doc_example_dialog :: "(pystr \<times> rat json) list" where
  "doc_example_dialog =
     [(ascii ''example_dialog'', JList [JStr (ascii ''ex'')]),
      (ascii ''char_greeting'', JStr (ascii ''cg''))]"

definition doc_char_greeting :: "(pystr \<times> rat json) list" where
  "doc_char_greeting =
     [(ascii ''example_dialog'', JList []),
      (ascii ''char_greeting'', JStr (ascii ''cg''))]"

definition doc_alternate :: "(pystr \<times> rat json) list" where
  "doc_alternate = [(ascii ''alternate_greetings'', JList [JStr (ascii ''alt'')])]"

definition doc_dict_field :: "(pystr \<times> rat json) list" where
  "doc_dict_field =
     [(ascii ''hero'', JObj [(ascii ''text'', JStr (ascii ''x''))]),
      (ascii ''tags'', JList [JObj [(ascii ''text'', JStr (ascii ''y''))]])]"

definition doc_list_field :: "(pystr \<times> rat json) list" where
  "doc_list_field =
     [(ascii ''hero'', JObj [(ascii ''enabled'', JBool False)]),
      (ascii ''tags'', JList [JObj [(ascii ''text'', JStr (ascii ''y''))], JStr (ascii ''skip'')])]"

definition doc_scalar_field :: "(pystr \<times> rat json) list" where
  "doc_scalar_field = [(ascii ''title'', JStr (ascii ''t''))]"

section \<open>Properties of the lore mapper\<close>

lemmas mapper_defs = process_entry_def process_match_def convert_position_def coerce_number_def
  dict_get_def dict_has_def ascii_def keep_def quote_value_def quote_str_def clean_content_def
  replace_char_def py_sub_def py_truediv_def py_max_def py_min_def py_lt_def to_float_def
  position_map_def py_key_eq_def py_num_eq_def join_keys_def keys_as_list_def py_str_def

lemmas sample_defs = sample_runtime_def parse_digits_def is_digit_def sample_str_def

lemmas extract_defs = extract_entries_from_json_def data_character_book_entries_def
  character_book_entries_def get_dict_def get_list_def looks_like_entry_def
  book_entries_loop_def entries_map_loop_def top_level_dicts_loop_def array_fields_loop_def
  array_items_loop_def default_entry_def enumerate_eq_zip

lemma process_entry_match:
  "process_entry rt eid (JObj e) = Inr t \<Longrightarrow>
   tr_match t = quote_str (process_match rt (dict_get e (ascii ''keys'') (JList []))
                                          (dict_get e (ascii ''secondary_keys'') (JList [])))"
  by (auto simp: process_entry_def Let_def split: sum.splits json.splits if_splits)

lemma process_default_entry:
  "\<exists>t. process_entry rt eid (default_entry rt data src) = Inr t"
  by (simp add: default_entry_def Let_def mapper_defs)

lemma sample_empty_entries:
  "extract_entries_from_json sample_runtime [(ascii ''entries'', JObj [])] [] = Inr []"
  by (simp add: extract_defs ascii_def)

text \<open>
  Claim C1, as amended. The cascade of \<open>extract_entries_from_json\<close> tries its shapes in
  priority order. Each of the first four shapes is taken as soon as it matches
  structurally and its result is returned, also when it holds no trigger:
  \<open>data.character_book.entries\<close> a list, then \<open>character_book.entries\<close> a list, then
  \<open>entries\<close> a dict, then a document that looks like a single entry. When none of the
  four matches, the dict-valued top-level fields are tried and their triggers returned
  if there is at least one; otherwise the list-valued top-level fields are tried in the
  same way; otherwise the default entry wrapping the whole document is used, and it
  always gives a trigger. So only the fifth and sixth shape are passed over when they
  yield nothing, and the result is then never empty.
\<close>

theorem cascade_stops_at_structural_match:
  "(data_character_book_entries data = Some l
      \<longrightarrow> extract_entries_from_json rt data src = data_entries_loop rt 0 l)
   \<and> (data_character_book_entries data = None \<and> character_book_entries data = Some l
      \<longrightarrow> extract_entries_from_json rt data src = Inr (book_entries_loop rt l))
   \<and> (data_character_book_entries data = None \<and> character_book_entries data = None
        \<and> get_dict data (ascii ''entries'') = Some es
      \<longrightarrow> extract_entries_from_json rt data src = Inr (entries_map_loop rt es))
   \<and> (data_character_book_entries data = None \<and> character_book_entries data = None
        \<and> get_dict data (ascii ''entries'') = None \<and> looks_like_entry data
      \<longrightarrow> extract_entries_from_json rt data src
            = Inr (keep (process_entry rt (JStr (ascii ''1'')) (JObj data))))
   \<and> (data_character_book_entries data = None \<and> character_book_entries data = None
        \<and> get_dict data (ascii ''entries'') = None \<and> \<not> looks_like_entry data
        \<and> top_level_dicts_loop rt data \<noteq> []
      \<longrightarrow> extract_entries_from_json rt data src = Inr (top_level_dicts_loop rt data))
   \<and> (data_character_book_entries data = None \<and> character_book_entries data = None
        \<and> get_dict data (ascii ''entries'') = None \<and> \<not> looks_like_entry data
        \<and> top_level_dicts_loop rt data = [] \<and> array_fields_loop rt data \<noteq> []
      \<longrightarrow> extract_entries_from_json rt data src = Inr (array_fields_loop rt data))
   \<and> (data_character_book_entries data = None \<and> character_book_entries data = None
        \<and> get_dict data (ascii ''entries'') = None \<and> \<not> looks_like_entry data
        \<and> top_level_dicts_loop rt data = [] \<and> array_fields_loop rt data = []
      \<longrightarrow> (\<exists>t. process_entry rt (JStr (ascii ''default'')) (default_entry rt data src) = Inr t
               \<and> extract_entries_from_json rt data src = Inr [t]))
   \<and> (data_character_book_entries data = None \<and> character_book_entries data = None
        \<and> get_dict data (ascii ''entries'') = None \<and> \<not> looks_like_entry data
      \<longrightarrow> (\<exists>ts. extract_entries_from_json rt data src = Inr ts \<and> ts \<noteq> []))"
  using process_default_entry[of rt "JStr (ascii ''default'')" data src]
  by (auto simp: extract_entries_from_json_def keep_def)

theorem cascade_stops_at_structural_match_witness:
  "(data_character_book_entries doc_empty_book = Some []
      \<and> extract_entries_from_json sample_runtime doc_empty_book [] = Inr [])
   \<and> (data_character_book_entries doc_book_only = None
      \<and> character_book_entries doc_book_only = Some []
      \<and> extract_entries_from_json sample_runtime doc_book_only [] = Inr [])
   \<and> (data_character_book_entries doc_entries_only = None
      \<and> character_book_entries doc_entries_only = None
      \<and> get_dict doc_entries_only (ascii ''entries'') = Some []
      \<and> extract_entries_from_json sample_runtime doc_entries_only [] = Inr [])
   \<and> (data_character_book_entries doc_disabled_entry = None
      \<and> character_book_entries doc_disabled_entry = None
      \<and> get_dict doc_disabled_entry (ascii ''entries'') = None
      \<and> looks_like_entry doc_disabled_entry
      \<and> extract_entries_from_json sample_runtime doc_disabled_entry [] = Inr [])
   \<and> (data_character_book_entries doc_dict_field = None
      \<and> character_book_entries doc_dict_field = None
      \<and> get_dict doc_dict_field (ascii ''entries'') = None
      \<and> \<not> looks_like_entry doc_dict_field
      \<and> top_level_dicts_loop sample_runtime doc_dict_field \<noteq> []
      \<and> array_fields_loop sample_runtime doc_dict_field \<noteq> []
      \<and> extract_entries_from_json sample_runtime doc_dict_field []
          = Inr (top_level_dicts_loop sample_runtime doc_dict_field)
      \<and> map tr_name (top_level_dicts_loop sample_runtime doc_dict_field)
          = [JStr (quote_str (ascii ''entry_hero''))])
   \<and> (data_character_book_entries doc_list_field = None
      \<and> character_book_entries doc_list_field = None
      \<and> get_dict doc_list_field (ascii ''entries'') = None
      \<and> \<not> looks_like_entry doc_list_field
      \<and> top_level_dicts_loop sample_runtime doc_list_field = []
      \<and> array_fields_loop sample_runtime doc_list_field \<noteq> []
      \<and> extract_entries_from_json sample_runtime doc_list_field []
          = Inr (array_fields_loop sample_runtime doc_list_field)
      \<and> map tr_name (array_fields_loop sample_runtime doc_list_field)
          = [JStr (quote_str (ascii ''entry_tags_1''))])
   \<and> (data_character_book_entries doc_scalar_field = None
      \<and> character_book_entries doc_scalar_field = None
      \<and> get_dict doc_scalar_field (ascii ''entries'') = None
      \<and> \<not> looks_like_entry doc_scalar_field
      \<and> top_level_dicts_loop sample_runtime doc_scalar_field = []
      \<and> array_fields_loop sample_runtime doc_scalar_field = []
      \<and> (\<exists>t. process_entry sample_runtime (JStr (ascii ''default''))
                 (default_entry sample_runtime doc_scalar_field []) = Inr t
             \<and> tr_match t = quote_str (ascii ''unknown'')
             \<and> extract_entries_from_json sample_runtime doc_scalar_field [] = Inr [t]))
   \<and> (\<exists>ts. extract_entries_from_json sample_runtime doc_scalar_field [] = Inr ts \<and> ts \<noteq> [])"
proof -
  note shape_defs = data_character_book_entries_def character_book_entries_def get_dict_def
    get_list_def looks_like_entry_def dict_has_def ascii_def
  note loop_defs = top_level_dicts_loop_def array_fields_loop_def array_items_loop_def
    enumerate_eq_zip
  have a: "data_character_book_entries doc_empty_book = Some []"
    by (simp add: doc_empty_book_def shape_defs)
  have a': "extract_entries_from_json sample_runtime doc_empty_book [] = Inr []"
    using cascade_stops_at_structural_match[where data = doc_empty_book and l = "[]"
          and rt = sample_runtime and src = "[]"] a
    by simp
  have b: "data_character_book_entries doc_book_only = None
           \<and> character_book_entries doc_book_only = Some []"
    by (simp add: doc_book_only_def shape_defs)
  have b': "extract_entries_from_json sample_runtime doc_book_only [] = Inr []"
    using cascade_stops_at_structural_match[where data = doc_book_only and l = "[]"
          and rt = sample_runtime and src = "[]"] b
    by (simp add: book_entries_loop_def)
  have c: "data_character_book_entries doc_entries_only = None
           \<and> character_book_entries doc_entries_only = None
           \<and> get_dict doc_entries_only (ascii ''entries'') = Some []"
    by (simp add: doc_entries_only_def shape_defs)
  have c': "extract_entries_from_json sample_runtime doc_entries_only [] = Inr []"
    using cascade_stops_at_structural_match[where data = doc_entries_only and es = "[]"
          and rt = sample_runtime and src = "[]"] c
    by (simp add: entries_map_loop_def)
  have d: "data_character_book_entries doc_disabled_entry = None
           \<and> character_book_entries doc_disabled_entry = None
           \<and> get_dict doc_disabled_entry (ascii ''entries'') = None
           \<and> looks_like_entry doc_disabled_entry"
    by (simp add: doc_disabled_entry_def shape_defs)
  have d0: "process_entry sample_runtime (JStr (ascii ''1'')) (JObj doc_disabled_entry) = Inl Disabled"
    by (simp add: doc_disabled_entry_def mapper_defs sample_defs)
  have d': "extract_entries_from_json sample_runtime doc_disabled_entry [] = Inr []"
    using cascade_stops_at_structural_match[where data = doc_disabled_entry
          and rt = sample_runtime and src = "[]"] d d0
    by (simp add: keep_def)
  have f: "data_character_book_entries doc_dict_field = None
           \<and> character_book_entries doc_dict_field = None
           \<and> get_dict doc_dict_field (ascii ''entries'') = None
           \<and> \<not> looks_like_entry doc_dict_field"
    by (simp add: doc_dict_field_def shape_defs)
  have f1: "map tr_name (top_level_dicts_loop sample_runtime doc_dict_field)
            = [JStr (quote_str (ascii ''entry_hero''))]"
    by (simp add: doc_dict_field_def loop_defs mapper_defs sample_defs)
  have f2: "map tr_name (array_fields_loop sample_runtime doc_dict_field)
            = [JStr (quote_str (ascii ''entry_tags_1''))]"
    by (simp add: doc_dict_field_def loop_defs mapper_defs sample_defs)
  from f1 have f3: "top_level_dicts_loop sample_runtime doc_dict_field \<noteq> []" by auto
  from f2 have f4: "array_fields_loop sample_runtime doc_dict_field \<noteq> []" by auto
  have f': "extract_entries_from_json sample_runtime doc_dict_field []
            = Inr (top_level_dicts_loop sample_runtime doc_dict_field)"
    using cascade_stops_at_structural_match[where data = doc_dict_field
          and rt = sample_runtime and src = "[]"] f f3
    by blast
  have g: "data_character_book_entries doc_list_field = None
           \<and> character_book_entries doc_list_field = None
           \<and> get_dict doc_list_field (ascii ''entries'') = None
           \<and> \<not> looks_like_entry doc_list_field"
    by (simp add: doc_list_field_def shape_defs)
  have g1: "top_level_dicts_loop sample_runtime doc_list_field = []"
    by (simp add: doc_list_field_def loop_defs mapper_defs sample_defs)
  have g2: "map tr_name (array_fields_loop sample_runtime doc_list_field)
            = [JStr (quote_str (ascii ''entry_tags_1''))]"
    by (simp add: doc_list_field_def loop_defs mapper_defs sample_defs)
  from g2 have g3: "array_fields_loop sample_runtime doc_list_field \<noteq> []" by auto
  have g': "extract_entries_from_json sample_runtime doc_list_field []
            = Inr (array_fields_loop sample_runtime doc_list_field)"
    using cascade_stops_at_structural_match[where data = doc_list_field
          and rt = sample_runtime and src = "[]"] g g1 g3
    by blast
  have h: "data_character_book_entries doc_scalar_field = None
           \<and> character_book_entries doc_scalar_field = None
           \<and> get_dict doc_scalar_field (ascii ''entries'') = None
           \<and> \<not> looks_like_entry doc_scalar_field"
    by (simp add: doc_scalar_field_def shape_defs)
  have h1: "top_level_dicts_loop sample_runtime doc_scalar_field = []"
    by (simp add: doc_scalar_field_def loop_defs)
  have h2: "array_fields_loop sample_runtime doc_scalar_field = []"
    by (simp add: doc_scalar_field_def loop_defs)
  from cascade_stops_at_structural_match[where data = doc_scalar_field
          and rt = sample_runtime and src = "[]"] h h1 h2
  obtain t where t: "process_entry sample_runtime (JStr (ascii ''default''))
                 (default_entry sample_runtime doc_scalar_field []) = Inr t"
    and t': "extract_entries_from_json sample_runtime doc_scalar_field [] = Inr [t]"
    by blast
  have t'': "tr_match t = quote_str (ascii ''unknown'')"
    using process_entry_match[of sample_runtime "JStr (ascii ''default'')" _ t]
          t[unfolded default_entry_def Let_def]
    by (simp add: process_match_def join_keys_def keys_as_list_def py_str_def dict_get_def
          ascii_def sample_runtime_def)
  have h': "\<exists>t. process_entry sample_runtime (JStr (ascii ''default''))
                 (default_entry sample_runtime doc_scalar_field []) = Inr t
             \<and> tr_match t = quote_str (ascii ''unknown'')
             \<and> extract_entries_from_json sample_runtime doc_scalar_field [] = Inr [t]"
    using t t' t'' by blast
  have e': "\<exists>ts. extract_entries_from_json sample_runtime doc_scalar_field [] = Inr ts \<and> ts \<noteq> []"
    using t' by blast
  from a a' b b' c c' d d' f f1 f3 f4 f' g g1 g2 g3 g' h h1 h2 h' e' show ?thesis by blast
qed

text \<open>
  The claim as stated says the cascade never stops at a shape that matched with no
  candidate. In \<open>doc_empty_book\<close> the first shape matches with an empty list and the
  result is empty, although the third shape, the \<open>entries\<close> dict, holds an entry that
  gives a trigger.
\<close>

theorem cascade_counterexample:
  "data_character_book_entries doc_empty_book = Some []
   \<and> extract_entries_from_json sample_runtime doc_empty_book [] = Inr []
   \<and> get_dict doc_empty_book (ascii ''entries'')
       = Some [(ascii ''a'', JObj [(ascii ''content'', JStr (ascii ''x''))])]
   \<and> entries_map_loop sample_runtime [(ascii ''a'', JObj [(ascii ''content'', JStr (ascii ''x''))])] \<noteq> []"
  by (simp add: doc_empty_book_def extract_defs mapper_defs sample_defs)

text \<open>
  Claim C3 at its failing input. The first shape reads \<open>entry.get('id', i)\<close> outside the
  handler of \<open>process_entry\<close>: one entry that is not a dict in
  \<open>data.character_book.entries\<close> raises AttributeError out of the loop, and
  \<open>convert_json_to_yaml\<close> reports failure with no trigger at all, although the list also
  holds a valid entry.
\<close>

theorem data_entries_non_dict_aborts:
  "convert_json_to_yaml rt
     [(ascii ''data'', JObj [(ascii ''character_book'',
         JObj [(ascii ''entries'',
                JList [JStr (ascii ''oops''), JObj [(ascii ''content'', JStr (ascii ''x''))]])])])] src
   = (False, \<lparr> yd_world_state = [], yd_user_state = [], yd_trigger = [] \<rparr>)"
  by (simp add: convert_json_to_yaml_def extract_entries_from_json_def
      data_character_book_entries_def get_dict_def get_list_def ascii_def)

text \<open>
  The same list under the second shape, \<open>character_book.entries\<close>, which passes the index
  as the id: the entry that is not a dict is dropped and the valid entry gives a trigger.
\<close>

lemma book_entries_non_dict_skipped:
  "\<exists>t. convert_json_to_yaml rt
     [(ascii ''character_book'',
         JObj [(ascii ''entries'',
                JList [JStr (ascii ''oops''), JObj [(ascii ''content'', JStr (ascii ''x''))]])])] src
   = (True, \<lparr> yd_world_state = [], yd_user_state = [], yd_trigger = [t] \<rparr>)"
  by (simp add: convert_json_to_yaml_def extract_defs mapper_defs)

text \<open>
  Claim C5 at its failing input. An entry whose \<open>insertion_order\<close> is \<open>null\<close> is not given
  the default 100: \<open>float(None)\<close> raises TypeError, the handler around the coercion
  catches ValueError only, and the entry is dropped.
\<close>

theorem insertion_order_null_dropped:
  "process_entry rt entry_id
     (JObj [(ascii ''insertion_order'', JNull), (ascii ''content'', JStr (ascii ''x''))])
   = Inl (Failed TypeError)"
  by (simp add: mapper_defs)

text \<open>
  What the coercion does on the other inputs: an absent \<open>insertion_order\<close> and a string
  that is not a number give priority 0, and a number gives 100 minus it.
\<close>

lemma priority_of_entry:
  "process_entry rt eid (JObj e) = Inr t \<Longrightarrow>
   (map_of e (ascii ''insertion_order'') = None \<longrightarrow> tr_priority t = PInt 0)
   \<and> (\<forall>i. map_of e (ascii ''insertion_order'') = Some (JInt i) \<longrightarrow> tr_priority t = PInt (100 - i))
   \<and> (\<forall>s. map_of e (ascii ''insertion_order'') = Some (JStr s) \<and> float_of_str rt s = None
          \<longrightarrow> tr_priority t = PInt 0)"
  unfolding process_entry_def Let_def
  by (auto simp: dict_get_def[of e "ascii ''insertion_order''"] coerce_number_def py_sub_def
           split: sum.splits json.splits if_splits)

text \<open>
  Claim C9. When \<open>convert_json_to_yaml\<close> succeeds the trigger list of the document is not
  empty: if extraction gave no trigger, the list is exactly the one fallback trigger,
  whose priority is 50, probability 1.0, position \<open>sys_start\<close> and block false.
\<close>

theorem convert_trigger_nonempty:
  "convert_json_to_yaml rt data src = (True, y) \<Longrightarrow>
     yd_trigger y \<noteq> []
     \<and> (extract_entries_from_json rt data src = Inr [] \<longrightarrow> yd_trigger y = [fallback_trigger rt])
     \<and> tr_priority (fallback_trigger rt) = PInt 50
     \<and> tr_probability (fallback_trigger rt) = float_of_int rt 1
     \<and> tr_position (fallback_trigger rt) = ascii ''sys_start''
     \<and> \<not> tr_block (fallback_trigger rt)"
  by (auto simp: convert_json_to_yaml_def fallback_trigger_def split: sum.splits if_splits)

theorem convert_trigger_nonempty_witness:
  "convert_json_to_yaml sample_runtime [(ascii ''entries'', JObj [])] []
     = (True, \<lparr> yd_world_state = [], yd_user_state = [], yd_trigger = [fallback_trigger sample_runtime] \<rparr>)
   \<and> extract_entries_from_json sample_runtime [(ascii ''entries'', JObj [])] [] = Inr []
   \<and> yd_trigger \<lparr> yd_world_state = [], yd_user_state = [], yd_trigger = [fallback_trigger sample_runtime] \<rparr> \<noteq> []"
proof -
  have c: "convert_json_to_yaml sample_runtime [(ascii ''entries'', JObj [])] []
     = (True, \<lparr> yd_world_state = [], yd_user_state = [], yd_trigger = [fallback_trigger sample_runtime] \<rparr>)"
    by (simp add: convert_json_to_yaml_def sample_empty_entries)
  from convert_trigger_nonempty[OF c] c sample_empty_entries show ?thesis by simp
qed

text \<open>
  Claim C10. When the primary \<open>keys\<close> value is falsy (absent, empty, \<open>null\<close>, ...)
  \<open>process_match\<close> returns the empty string whatever the secondary keys are; the same
  holds whenever the joined primary part is empty, so no \<open>~\<close> part appears without a
  primary part; the trigger built from such an entry carries the empty match, written
  as the quoted empty scalar. A falsy key contributes nothing: removing it from the
  primary or from the secondary list leaves the result of \<open>process_match\<close> unchanged,
  and on two lists the result is the \<open>&\<close>-join of the truthy primary keys, followed by
  \<open>~\<close> and the \<open>&\<close>-join of the truthy secondary keys when both joins are non-empty.
\<close>

theorem process_match_without_primary:
  "(\<not> py_truthy rt keys \<longrightarrow> process_match rt keys sec = [])
   \<and> (join_keys rt (keys_as_list rt keys) = [] \<longrightarrow> process_match rt keys sec = [])
   \<and> (\<not> py_truthy rt k \<longrightarrow> join_keys rt (ks @ k # ks') = join_keys rt (ks @ ks'))
   \<and> (\<not> py_truthy rt (dict_get e (ascii ''keys'') (JList [])) \<and> process_entry rt eid (JObj e) = Inr t
        \<longrightarrow> tr_match t = quote_str [])
   \<and> (\<not> py_truthy rt k
        \<longrightarrow> process_match rt (JList (ks @ k # ks')) sec = process_match rt (JList (ks @ ks')) sec)
   \<and> (\<not> py_truthy rt k
        \<longrightarrow> process_match rt keys (JList (ks @ k # ks')) = process_match rt keys (JList (ks @ ks')))
   \<and> process_match rt (JList ps) (JList ss)
       = (if py_join (ascii ''&'') (map (py_str rt) (filter (py_truthy rt) ps)) \<noteq> []
             \<and> py_join (ascii ''&'') (map (py_str rt) (filter (py_truthy rt) ss)) \<noteq> []
          then py_join (ascii ''&'') (map (py_str rt) (filter (py_truthy rt) ps)) @ ascii ''~''
               @ py_join (ascii ''&'') (map (py_str rt) (filter (py_truthy rt) ss))
          else py_join (ascii ''&'') (map (py_str rt) (filter (py_truthy rt) ps)))
   \<and> process_match rt (JStr s) (JList ss)
       = (if s \<noteq> [] \<and> py_join (ascii ''&'') (map (py_str rt) (filter (py_truthy rt) ss)) \<noteq> []
          then s @ ascii ''~'' @ py_join (ascii ''&'') (map (py_str rt) (filter (py_truthy rt) ss))
          else s)"
proof -
  have a: "\<not> py_truthy rt keys \<longrightarrow> process_match rt keys sec = []"
    by (simp add: process_match_def)
  have b: "join_keys rt (keys_as_list rt keys) = [] \<longrightarrow> process_match rt keys sec = []"
    by (simp add: process_match_def Let_def)
  have c: "\<not> py_truthy rt k \<longrightarrow> join_keys rt (ks @ k # ks') = join_keys rt (ks @ ks')"
    by (simp add: join_keys_def)
  have d: "\<not> py_truthy rt (dict_get e (ascii ''keys'') (JList [])) \<and> process_entry rt eid (JObj e) = Inr t
        \<longrightarrow> tr_match t = quote_str []"
    using process_entry_match[of rt eid e t] by (simp add: process_match_def)
  have e: "\<not> py_truthy rt k
        \<longrightarrow> process_match rt (JList (ks @ k # ks')) sec = process_match rt (JList (ks @ ks')) sec"
    by (cases "ks @ ks' = []")
       (simp_all add: process_match_def Let_def join_keys_def keys_as_list_def)
  have f: "\<not> py_truthy rt k
        \<longrightarrow> process_match rt keys (JList (ks @ k # ks')) = process_match rt keys (JList (ks @ ks'))"
    by (cases "ks @ ks' = []")
       (simp_all add: process_match_def Let_def join_keys_def)
  have g: "process_match rt (JList ps) (JList ss)
       = (if py_join (ascii ''&'') (map (py_str rt) (filter (py_truthy rt) ps)) \<noteq> []
             \<and> py_join (ascii ''&'') (map (py_str rt) (filter (py_truthy rt) ss)) \<noteq> []
          then py_join (ascii ''&'') (map (py_str rt) (filter (py_truthy rt) ps)) @ ascii ''~''
               @ py_join (ascii ''&'') (map (py_str rt) (filter (py_truthy rt) ss))
          else py_join (ascii ''&'') (map (py_str rt) (filter (py_truthy rt) ps)))"
    by (cases "ps = []"; cases "ss = []")
       (simp_all add: process_match_def Let_def join_keys_def keys_as_list_def)
  have h: "process_match rt (JStr s) (JList ss)
       = (if s \<noteq> [] \<and> py_join (ascii ''&'') (map (py_str rt) (filter (py_truthy rt) ss)) \<noteq> []
          then s @ ascii ''~'' @ py_join (ascii ''&'') (map (py_str rt) (filter (py_truthy rt) ss))
          else s)"
    by (cases "s = []"; cases "ss = []")
       (simp_all add: process_match_def Let_def join_keys_def keys_as_list_def py_str_def)
  from a b c d e f g h show ?thesis by blast
qed

theorem process_match_without_primary_witness:
  "\<not> py_truthy sample_runtime (JStr [])
   \<and> process_match sample_runtime (JStr []) (JList [JStr (ascii ''dragon'')]) = []
   \<and> join_keys sample_runtime (keys_as_list sample_runtime (JList [JNull, JStr []])) = []
   \<and> process_match sample_runtime (JList [JNull, JStr []]) (JList [JStr (ascii ''dragon'')]) = []
   \<and> \<not> py_truthy sample_runtime JNull
   \<and> join_keys sample_runtime ([JStr (ascii ''a'')] @ JNull # [JStr (ascii ''b'')]) = ascii ''a&b''
   \<and> \<not> py_truthy sample_runtime (dict_get [(ascii ''secondary_keys'', JList [JStr (ascii ''dragon'')])]
                                      (ascii ''keys'') (JList []))
   \<and> process_entry sample_runtime (JInt 0)
         (JObj [(ascii ''secondary_keys'', JList [JStr (ascii ''dragon'')])])
       = Inr \<lparr> tr_name = JStr (quote_str (ascii ''entry_0'')),
                tr_type = quote_str (ascii ''keywords''),
                tr_match = quote_str [],
                tr_conditional = quote_str [],
                tr_priority = PInt 0,
                tr_block = False,
                tr_probability = 1,
                tr_position = quote_str (ascii ''sys_start''),
                tr_content = JStr (quote_str []) \<rparr>
   \<and> process_match sample_runtime (JList ([JStr (ascii ''a'')] @ JNull # [JStr (ascii ''b'')]))
         (JList ([JNull] @ JInt 0 # [JStr (ascii ''x'')]))
       = ascii ''a&b~x''
   \<and> process_match sample_runtime (JList [JStr (ascii ''a''), JStr (ascii ''b'')])
         (JList [JStr (ascii ''x'')])
       = ascii ''a&b~x''
   \<and> process_match sample_runtime (JStr (ascii ''a'')) (JList [JNull, JStr (ascii ''x'')])
       = ascii ''a~x''"
proof -
  let ?rt = sample_runtime
  have n: "\<not> py_truthy ?rt JNull" "\<not> py_truthy ?rt (JStr [])" "\<not> py_truthy ?rt (JInt 0)"
    by simp_all
  have a: "process_match ?rt (JStr []) (JList [JStr (ascii ''dragon'')]) = []"
    using process_match_without_primary[of ?rt "JStr []" "JList [JStr (ascii ''dragon'')]"] n
    by blast
  have b0: "join_keys ?rt (keys_as_list ?rt (JList [JNull, JStr []])) = []"
    by (simp add: join_keys_def keys_as_list_def)
  have b: "process_match ?rt (JList [JNull, JStr []]) (JList [JStr (ascii ''dragon'')]) = []"
    using process_match_without_primary[of ?rt "JList [JNull, JStr []]"
            "JList [JStr (ascii ''dragon'')]"] b0
    by blast
  have c0: "join_keys ?rt ([JStr (ascii ''a'')] @ [JStr (ascii ''b'')]) = ascii ''a&b''"
    by (simp add: join_keys_def py_str_def ascii_def)
  have c: "join_keys ?rt ([JStr (ascii ''a'')] @ JNull # [JStr (ascii ''b'')]) = ascii ''a&b''"
    using process_match_without_primary[where rt = ?rt and k = JNull
            and ks = "[JStr (ascii ''a'')]" and ks' = "[JStr (ascii ''b'')]"] n c0
    by simp
  have d0: "\<not> py_truthy ?rt (dict_get [(ascii ''secondary_keys'', JList [JStr (ascii ''dragon'')])]
                                      (ascii ''keys'') (JList []))"
    by (simp add: dict_get_def ascii_def)
  have d: "process_entry ?rt (JInt 0)
         (JObj [(ascii ''secondary_keys'', JList [JStr (ascii ''dragon'')])])
       = Inr \<lparr> tr_name = JStr (quote_str (ascii ''entry_0'')),
                tr_type = quote_str (ascii ''keywords''),
                tr_match = quote_str [],
                tr_conditional = quote_str [],
                tr_priority = PInt 0,
                tr_block = False,
                tr_probability = 1,
                tr_position = quote_str (ascii ''sys_start''),
                tr_content = JStr (quote_str []) \<rparr>"
    by (simp add: mapper_defs sample_defs)
  have g: "process_match ?rt (JList [JStr (ascii ''a''), JStr (ascii ''b'')])
             (JList [JStr (ascii ''x'')]) = ascii ''a&b~x''"
    using process_match_without_primary[where rt = ?rt
            and ps = "[JStr (ascii ''a''), JStr (ascii ''b'')]" and ss = "[JStr (ascii ''x'')]"]
    by (simp add: py_str_def ascii_def)
  have e1: "process_match ?rt (JList ([JStr (ascii ''a'')] @ JNull # [JStr (ascii ''b'')]))
              (JList ([JNull] @ JInt 0 # [JStr (ascii ''x'')]))
            = process_match ?rt (JList ([JStr (ascii ''a'')] @ [JStr (ascii ''b'')]))
              (JList ([JNull] @ JInt 0 # [JStr (ascii ''x'')]))"
    using process_match_without_primary[where rt = ?rt and k = JNull
            and ks = "[JStr (ascii ''a'')]" and ks' = "[JStr (ascii ''b'')]"
            and sec = "JList ([JNull] @ JInt 0 # [JStr (ascii ''x'')])"] n
    by blast
  have e2: "process_match ?rt (JList ([JStr (ascii ''a'')] @ [JStr (ascii ''b'')]))
              (JList ([JNull] @ JInt 0 # [JStr (ascii ''x'')]))
            = process_match ?rt (JList ([JStr (ascii ''a'')] @ [JStr (ascii ''b'')]))
              (JList ([JNull] @ [JStr (ascii ''x'')]))"
    using process_match_without_primary[where rt = ?rt and k = "JInt 0"
            and ks = "[JNull]" and ks' = "[JStr (ascii ''x'')]"
            and keys = "JList ([JStr (ascii ''a'')] @ [JStr (ascii ''b'')])"] n
    by blast
  have e3: "process_match ?rt (JList ([JStr (ascii ''a'')] @ [JStr (ascii ''b'')]))
              (JList ([JNull] @ [JStr (ascii ''x'')]))
            = process_match ?rt (JList ([JStr (ascii ''a'')] @ [JStr (ascii ''b'')]))
              (JList ([] @ [JStr (ascii ''x'')]))"
    using process_match_without_primary[where rt = ?rt and k = JNull
            and ks = "[]" and ks' = "[JStr (ascii ''x'')]"
            and keys = "JList ([JStr (ascii ''a'')] @ [JStr (ascii ''b'')])"] n
    by simp
  have e: "process_match ?rt (JList ([JStr (ascii ''a'')] @ JNull # [JStr (ascii ''b'')]))
              (JList ([JNull] @ JInt 0 # [JStr (ascii ''x'')])) = ascii ''a&b~x''"
    using e1 e2 e3 g by simp
  have h: "process_match ?rt (JStr (ascii ''a'')) (JList [JNull, JStr (ascii ''x'')]) = ascii ''a~x''"
    using process_match_without_primary[where rt = ?rt
            and s = "ascii ''a''" and ss = "[JNull, JStr (ascii ''x'')]"]
    by (simp add: py_str_def ascii_def)
  from n a b0 b c d0 d e g h show ?thesis by blast
qed

section \<open>Properties of the character summary\<close>

lemmas summary_defs = first_mes_raw_def first_of_list_def extract_character_info_def
  dict_get_def dict_has_def ascii_def py_str_def quote_str_def replace_char_def

text \<open>
  The branch taken by the chain that resolves \<open>first_mes_raw\<close>, case by case: the
  branches for \<open>first_mes\<close>, \<open>begin_dialogs\<close>, \<open>greeting\<close> and \<open>char_greeting\<close> are entered
  when the key is present, those for \<open>example_dialog\<close> and \<open>alternate_greetings\<close> when the
  key is present with a truthy value.
\<close>

lemma first_mes_first_selected:
  "(dict_has d (ascii ''first_mes'')
      \<longrightarrow> first_mes_raw rt d = dict_get d (ascii ''first_mes'') JNull)
   \<and> (\<not> dict_has d (ascii ''first_mes'') \<and> dict_has d (ascii ''begin_dialogs'')
      \<longrightarrow> first_mes_raw rt d =
            (case dict_get d (ascii ''begin_dialogs'') JNull of
               JList (x # xs) \<Rightarrow> x | JStr s \<Rightarrow> JStr s | _ \<Rightarrow> JStr []))
   \<and> (\<not> dict_has d (ascii ''first_mes'') \<and> \<not> dict_has d (ascii ''begin_dialogs'')
        \<and> dict_has d (ascii ''greeting'')
      \<longrightarrow> first_mes_raw rt d = dict_get d (ascii ''greeting'') JNull)
   \<and> (\<not> dict_has d (ascii ''first_mes'') \<and> \<not> dict_has d (ascii ''begin_dialogs'')
        \<and> \<not> dict_has d (ascii ''greeting'')
        \<and> dict_has d (ascii ''example_dialog'')
        \<and> py_truthy rt (dict_get d (ascii ''example_dialog'') JNull)
      \<longrightarrow> first_mes_raw rt d = first_of_list (dict_get d (ascii ''example_dialog'') JNull))
   \<and> (\<not> dict_has d (ascii ''first_mes'') \<and> \<not> dict_has d (ascii ''begin_dialogs'')
        \<and> \<not> dict_has d (ascii ''greeting'')
        \<and> \<not> (dict_has d (ascii ''example_dialog'')
              \<and> py_truthy rt (dict_get d (ascii ''example_dialog'') JNull))
        \<and> dict_has d (ascii ''char_greeting'')
      \<longrightarrow> first_mes_raw rt d = dict_get d (ascii ''char_greeting'') JNull)
   \<and> (\<not> dict_has d (ascii ''first_mes'') \<and> \<not> dict_has d (ascii ''begin_dialogs'')
        \<and> \<not> dict_has d (ascii ''greeting'')
        \<and> \<not> (dict_has d (ascii ''example_dialog'')
              \<and> py_truthy rt (dict_get d (ascii ''example_dialog'') JNull))
        \<and> \<not> dict_has d (ascii ''char_greeting'')
        \<and> dict_has d (ascii ''alternate_greetings'')
        \<and> py_truthy rt (dict_get d (ascii ''alternate_greetings'') JNull)
      \<longrightarrow> first_mes_raw rt d = first_of_list (dict_get d (ascii ''alternate_greetings'') JNull))"
  unfolding first_mes_raw_def Let_def
  by (simp split: json.splits list.splits)

lemma first_mes_first_selected_examples:
  "(dict_has doc_empty_first_mes (ascii ''first_mes'')
      \<and> first_mes_raw sample_runtime doc_empty_first_mes = JStr [])
   \<and> (\<not> dict_has doc_begin_dialogs (ascii ''first_mes'')
      \<and> dict_has doc_begin_dialogs (ascii ''begin_dialogs'')
      \<and> first_mes_raw sample_runtime doc_begin_dialogs = JStr (ascii ''hi''))
   \<and> (\<not> dict_has doc_greeting (ascii ''first_mes'')
      \<and> \<not> dict_has doc_greeting (ascii ''begin_dialogs'')
      \<and> dict_has doc_greeting (ascii ''greeting'')
      \<and> first_mes_raw sample_runtime doc_greeting = JStr (ascii ''hello''))
   \<and> (\<not> dict_has doc_example_dialog (ascii ''first_mes'')
      \<and> \<not> dict_has doc_example_dialog (ascii ''begin_dialogs'')
      \<and> \<not> dict_has doc_example_dialog (ascii ''greeting'')
      \<and> dict_has doc_example_dialog (ascii ''example_dialog'')
      \<and> py_truthy sample_runtime (dict_get doc_example_dialog (ascii ''example_dialog'') JNull)
      \<and> first_mes_raw sample_runtime doc_example_dialog = JStr (ascii ''ex''))
   \<and> (\<not> dict_has doc_char_greeting (ascii ''first_mes'')
      \<and> \<not> dict_has doc_char_greeting (ascii ''begin_dialogs'')
      \<and> \<not> dict_has doc_char_greeting (ascii ''greeting'')
      \<and> \<not> (dict_has doc_char_greeting (ascii ''example_dialog'')
            \<and> py_truthy sample_runtime (dict_get doc_char_greeting (ascii ''example_dialog'') JNull))
      \<and> dict_has doc_char_greeting (ascii ''char_greeting'')
      \<and> first_mes_raw sample_runtime doc_char_greeting = JStr (ascii ''cg''))
   \<and> (\<not> dict_has doc_alternate (ascii ''first_mes'')
      \<and> \<not> dict_has doc_alternate (ascii ''begin_dialogs'')
      \<and> \<not> dict_has doc_alternate (ascii ''greeting'')
      \<and> \<not> (dict_has doc_alternate (ascii ''example_dialog'')
            \<and> py_truthy sample_runtime (dict_get doc_alternate (ascii ''example_dialog'') JNull))
      \<and> \<not> dict_has doc_alternate (ascii ''char_greeting'')
      \<and> dict_has doc_alternate (ascii ''alternate_greetings'')
      \<and> py_truthy sample_runtime (dict_get doc_alternate (ascii ''alternate_greetings'') JNull)
      \<and> first_mes_raw sample_runtime doc_alternate = JStr (ascii ''alt''))"
proof -
  note ev = dict_has_def dict_get_def ascii_def first_of_list_def
  have a: "dict_has doc_empty_first_mes (ascii ''first_mes'')"
    by (simp add: doc_empty_first_mes_def ev)
  have a': "first_mes_raw sample_runtime doc_empty_first_mes = JStr []"
    using first_mes_first_selected[of doc_empty_first_mes sample_runtime] a
    by (simp add: doc_empty_first_mes_def ev)
  have b: "\<not> dict_has doc_begin_dialogs (ascii ''first_mes'')
      \<and> dict_has doc_begin_dialogs (ascii ''begin_dialogs'')"
    by (simp add: doc_begin_dialogs_def ev)
  have b': "first_mes_raw sample_runtime doc_begin_dialogs = JStr (ascii ''hi'')"
    using first_mes_first_selected[of doc_begin_dialogs sample_runtime] b
    by (simp add: doc_begin_dialogs_def ev)
  have c: "\<not> dict_has doc_greeting (ascii ''first_mes'')
      \<and> \<not> dict_has doc_greeting (ascii ''begin_dialogs'')
      \<and> dict_has doc_greeting (ascii ''greeting'')"
    by (simp add: doc_greeting_def ev)
  have c': "first_mes_raw sample_runtime doc_greeting = JStr (ascii ''hello'')"
    using first_mes_first_selected[of doc_greeting sample_runtime] c
    by (simp add: doc_greeting_def ev)
  have d: "\<not> dict_has doc_example_dialog (ascii ''first_mes'')
      \<and> \<not> dict_has doc_example_dialog (ascii ''begin_dialogs'')
      \<and> \<not> dict_has doc_example_dialog (ascii ''greeting'')
      \<and> dict_has doc_example_dialog (ascii ''example_dialog'')
      \<and> py_truthy sample_runtime (dict_get doc_example_dialog (ascii ''example_dialog'') JNull)"
    by (simp add: doc_example_dialog_def ev)
  have d': "first_mes_raw sample_runtime doc_example_dialog = JStr (ascii ''ex'')"
    using first_mes_first_selected[of doc_example_dialog sample_runtime] d
    by (simp add: doc_example_dialog_def ev)
  have e: "\<not> dict_has doc_char_greeting (ascii ''first_mes'')
      \<and> \<not> dict_has doc_char_greeting (ascii ''begin_dialogs'')
      \<and> \<not> dict_has doc_char_greeting (ascii ''greeting'')
      \<and> \<not> (dict_has doc_char_greeting (ascii ''example_dialog'')
            \<and> py_truthy sample_runtime (dict_get doc_char_greeting (ascii ''example_dialog'') JNull))
      \<and> dict_has doc_char_greeting (ascii ''char_greeting'')"
    by (simp add: doc_char_greeting_def ev)
  have e': "first_mes_raw sample_runtime doc_char_greeting = JStr (ascii ''cg'')"
    using first_mes_first_selected[of doc_char_greeting sample_runtime] e
    by (simp add: doc_char_greeting_def ev)
  have f: "\<not> dict_has doc_alternate (ascii ''first_mes'')
      \<and> \<not> dict_has doc_alternate (ascii ''begin_dialogs'')
      \<and> \<not> dict_has doc_alternate (ascii ''greeting'')
      \<and> \<not> (dict_has doc_alternate (ascii ''example_dialog'')
            \<and> py_truthy sample_runtime (dict_get doc_alternate (ascii ''example_dialog'') JNull))
      \<and> \<not> dict_has doc_alternate (ascii ''char_greeting'')
      \<and> dict_has doc_alternate (ascii ''alternate_greetings'')
      \<and> py_truthy sample_runtime (dict_get doc_alternate (ascii ''alternate_greetings'') JNull)"
    by (simp add: doc_alternate_def ev)
  have f': "first_mes_raw sample_runtime doc_alternate = JStr (ascii ''alt'')"
    using first_mes_first_selected[of doc_alternate sample_runtime] f
    by (simp add: doc_alternate_def ev)
  from a a' b b' c c' d d' e e' f f' show ?thesis by blast
qed

text \<open>The third line of the summary prints the resolved value, quoted.\<close>

lemma summary_first_mes_line:
  "extract_character_info rt (JObj d)
   = ascii ''name: '' @ quote_str (py_str rt (dict_get d (ascii ''name'') (JStr []))) @ [10, 10]
     @ ascii ''prompt: '' @ quote_str (py_str rt (dict_get d (ascii ''description'') (JStr [])))
     @ [10, 10]
     @ ascii ''first_mes: '' @ quote_str (py_str rt (first_mes_raw rt d))"
  by (simp add: extract_character_info_def Let_def)

text \<open>
  Claim C4 at its failing input. In the document
  \<open>{"name": "Ann", "first_mes": "", "greeting": "hello"}\<close> the first source is present
  but empty and a later source is populated; the branch for \<open>first_mes\<close> tests only that
  the key is present, so the summary prints an empty \<open>first_mes\<close> and \<open>hello\<close> is
  shadowed. The sibling branch for \<open>example_dialog\<close> does test that its value is
  populated: in \<open>{"name": "Ann", "example_dialog": [], "char_greeting": "cg"}\<close> the empty
  earlier source is skipped and the summary prints \<open>cg\<close>.
\<close>

theorem empty_first_mes_shadows_greeting:
  "extract_character_info rt
     (JObj [(ascii ''name'', JStr (ascii ''Ann'')),
            (ascii ''first_mes'', JStr []),
            (ascii ''greeting'', JStr (ascii ''hello''))])
   = ascii ''name: '' @ [34] @ ascii ''Ann'' @ [34, 10, 10]
     @ ascii ''prompt: '' @ [34, 34, 10, 10]
     @ ascii ''first_mes: '' @ [34, 34]
   \<and> extract_character_info rt
     (JObj [(ascii ''name'', JStr (ascii ''Ann'')),
            (ascii ''example_dialog'', JList []),
            (ascii ''char_greeting'', JStr (ascii ''cg''))])
   = ascii ''name: '' @ [34] @ ascii ''Ann'' @ [34, 10, 10]
     @ ascii ''prompt: '' @ [34, 34, 10, 10]
     @ ascii ''first_mes: '' @ [34] @ ascii ''cg'' @ [34]"
  by (simp add: summary_defs)

end
